theory Spec2Isabelle
  imports Main
begin

section \<open>JavaScript values, thrown values and the fetch result\<close>

text \<open>
  The hooks consume the response body as parsed JSON and inspect it at run time
  (\<^verbatim>\<open>typeof\<close>, \<^verbatim>\<open>in\<close>, \<^verbatim>\<open>Array.isArray\<close>, member access), so the body is
  modelled as a run-time value, not as the TypeScript type it is cast to. An object is
  the association list of its own properties, read with \<open>map_of\<close>. The numeric value
  of a number is never inspected by the code below beyond its truthiness.
\<close>

datatype jsval =
    Undefined
  | Null
  | Bool bool
  | Num int
  | Str string
  | Arr "jsval list"
  | Obj "(string \<times> jsval) list"

text \<open>\<^verbatim>\<open>typeof v\<close>; arrays and \<^verbatim>\<open>null\<close> are of type "object".\<close>

fun typeof :: "jsval \<Rightarrow> string" where
  "typeof Undefined = ''undefined''"
| "typeof Null = ''object''"
| "typeof (Bool b) = ''boolean''"
| "typeof (Num n) = ''number''"
| "typeof (Str s) = ''string''"
| "typeof (Arr xs) = ''object''"
| "typeof (Obj fs) = ''object''"

text \<open>
  \<^verbatim>\<open>k in v\<close> for a value of type "object" that is not \<^verbatim>\<open>null\<close>. It is only asked
  for the names "type" and "timestamp", which neither an array nor a prototype has, so
  it holds exactly for an own property of an object.
\<close>

fun has_property :: "string \<Rightarrow> jsval \<Rightarrow> bool" where
  "has_property k (Obj fs) = (map_of fs k \<noteq> None)"
| "has_property k v = False"

text \<open>
  \<^verbatim>\<open>v.k\<close> on a value that is neither \<^verbatim>\<open>null\<close> nor \<^verbatim>\<open>undefined\<close>: the own
  property of an object, \<^verbatim>\<open>undefined\<close> otherwise (the names read below, "messages",
  "sessionId" and "timestamp", are not properties of arrays, strings, numbers or
  booleans).
\<close>

fun get_prop :: "jsval \<Rightarrow> string \<Rightarrow> jsval" where
  "get_prop (Obj fs) k = (case map_of fs k of None \<Rightarrow> Undefined | Some v \<Rightarrow> v)"
| "get_prop v k = Undefined"

text \<open>Truthiness, as \<^verbatim>\<open>!v\<close> tests it.\<close>

fun truthy :: "jsval \<Rightarrow> bool" where
  "truthy Undefined = False"
| "truthy Null = False"
| "truthy (Bool b) = b"
| "truthy (Num n) = (n \<noteq> 0)"
| "truthy (Str s) = (s \<noteq> [])"
| "truthy (Arr xs) = True"
| "truthy (Obj fs) = True"

fun isArray :: "jsval \<Rightarrow> bool" where
  "isArray (Arr xs) = True"
| "isArray v = False"

fun elements :: "jsval \<Rightarrow> jsval list" where
  "elements (Arr xs) = xs"
| "elements v = []"

text \<open>
  A thrown value: an instance of \<^verbatim>\<open>Error\<close> with its message, or anything else.
  The catch blocks distinguish exactly these two.
\<close>

datatype thrown = ErrorObj string | NonError

text \<open>
  Member access that can throw: \<^verbatim>\<open>v.k\<close> on \<^verbatim>\<open>null\<close> or \<^verbatim>\<open>undefined\<close> throws a
  TypeError. The message text is the engine's (here V8's, with the property name in
  single quotes); nothing below depends on it.
\<close>

definition member_TypeError :: "jsval \<Rightarrow> string \<Rightarrow> thrown" where
  "member_TypeError v k =
     ErrorObj (''Cannot read properties of ''
       @ (if v = Null then ''null'' else ''undefined'')
       @ '' (reading '' @ [CHR 0x27] @ k @ [CHR 0x27] @ '')'')"

fun get_member :: "jsval \<Rightarrow> string \<Rightarrow> thrown + jsval" where
  "get_member Undefined k = Inl (member_TypeError Undefined k)"
| "get_member Null k = Inl (member_TypeError Null k)"
| "get_member v k = Inr (get_prop v k)"

text \<open>
  The \<^verbatim>\<open>Response\<close> of \<^verbatim>\<open>fetch\<close>: the fields the hooks read, and what
  \<^verbatim>\<open>response.json()\<close> settles to (a rejection with the thrown value, or the parsed
  body). \<^verbatim>\<open>fetch\<close> itself rejects or resolves to a response.
\<close>

record response =
  ok :: bool
  status :: nat
  statusText :: string
  json :: "thrown + jsval"

datatype fetch_outcome = FetchRejects thrown | FetchResolves response

text \<open>Decimal rendering of a number inside a template literal.\<close>

fun show_nat :: "nat \<Rightarrow> string" where
  "show_nat n =
     (if n < 10 then [''0123456789'' ! n]
      else show_nat (n div 10) @ [''0123456789'' ! (n mod 10)])"

declare show_nat.simps [simp del]

text \<open>What the console receives.\<close>

datatype log_entry =
    Warn string jsval
  | Error string thrown
  | Log string

section \<open>useHistoryLoader.ts: the state, the type guard\<close>

text \<open>
  \<open>'m\<close> is the frontend message type \<^verbatim>\<open>AllMessage\<close>. The session id is stored as
  the body's \<^verbatim>\<open>sessionId\<close> member, whatever value it is.
\<close>

record 'm HistoryLoaderState =
  messages :: "'m list"
  loading :: bool
  error :: "string option"
  sessionId :: jsval

definition isTimestampedSDKMessage :: "jsval \<Rightarrow> bool" where
  "isTimestampedSDKMessage message \<longleftrightarrow>
     typeof message = ''object'' \<and>
     message \<noteq> Null \<and>
     has_property ''type'' message \<and>
     has_property ''timestamp'' message \<and>
     typeof (get_prop message ''timestamp'') = ''string''"

text \<open>
  A hook instance: its React state and the console. \<open>setState\<close> with an updater
  function applies it to the state current at that moment.
\<close>

record 'm hook =
  state :: "'m HistoryLoaderState"
  console :: "log_entry list"

definition setState ::
  "('m HistoryLoaderState \<Rightarrow> 'm HistoryLoaderState) \<Rightarrow> ('m, 'z) hook_scheme \<Rightarrow> ('m, 'z) hook_scheme" where
  "setState f h = h\<lparr> state := f (state h) \<rparr>"

definition console_log :: "log_entry \<Rightarrow> ('m, 'z) hook_scheme \<Rightarrow> ('m, 'z) hook_scheme" where
  "console_log e h = h\<lparr> console := console h @ [e] \<rparr>"

section \<open>useHistoryLoader: loadHistory and clearHistory\<close>

text \<open>
  The functions \<^verbatim>\<open>getConversationUrl\<close> (config/api) and
  \<^verbatim>\<open>convertConversationHistory\<close> (useMessageConverter) are not among the sources;
  they are parameters of the model. The converter is called inside the \<^verbatim>\<open>try\<close>
  block, so it may throw: it returns \<open>Inl\<close> of the thrown value or \<open>Inr\<close> of the
  converted messages.

  \<^verbatim>\<open>loadHistory\<close> is asynchronous. Its part up to \<^verbatim>\<open>await fetch(...)\<close> is
  \<open>loadHistory_start\<close>, which returns the URL of the request it issues (\<open>None\<close>: no
  request); the part after the fetch has settled is \<open>loadHistory_resume\<close>, applied to
  the hook as it is at that moment. (On every path the code touches the hook in one
  piece only after the start: either right after \<^verbatim>\<open>fetch\<close> has settled, or right
  after \<^verbatim>\<open>response.json()\<close> has.)
\<close>

definition loadHistory_start ::
  "(string \<Rightarrow> string \<Rightarrow> string) \<Rightarrow> string \<Rightarrow> string \<Rightarrow> ('m, 'z) hook_scheme
     \<Rightarrow> ('m, 'z) hook_scheme \<times> string option" where
  "loadHistory_start getConversationUrl encodedProjectName sessionIdArg h =
     (if encodedProjectName = [] \<or> sessionIdArg = [] then
        (setState (\<lambda>prev. prev\<lparr> error := Some ''Encoded project name and session ID are required'' \<rparr>) h,
         None)
      else
        (setState (\<lambda>prev. prev\<lparr> loading := True, error := None \<rparr>) h,
         Some (getConversationUrl encodedProjectName sessionIdArg)))"

text \<open>The \<^verbatim>\<open>catch\<close> block.\<close>

definition loadHistory_catch :: "thrown \<Rightarrow> ('m, 'z) hook_scheme \<Rightarrow> ('m, 'z) hook_scheme" where
  "loadHistory_catch e h =
     setState (\<lambda>prev. prev\<lparr> loading := False,
                 error := Some (case e of ErrorObj message \<Rightarrow> message
                                | NonError \<Rightarrow> ''Failed to load conversation history'') \<rparr>)
       (console_log (Error ''Error loading conversation history:'' e) h)"

text \<open>
  The \<^verbatim>\<open>for\<close> loop over \<^verbatim>\<open>conversationHistory.messages\<close>: the accumulator is
  \<^verbatim>\<open>timestampedMessages\<close>, the console is threaded through.
\<close>

fun loadHistory_loop ::
  "jsval list \<Rightarrow> jsval list \<Rightarrow> log_entry list \<Rightarrow> jsval list \<times> log_entry list" where
  "loadHistory_loop [] timestampedMessages lg = (timestampedMessages, lg)"
| "loadHistory_loop (msg # rest) timestampedMessages lg =
     (if isTimestampedSDKMessage msg
      then loadHistory_loop rest (timestampedMessages @ [msg]) lg
      else loadHistory_loop rest timestampedMessages
             (lg @ [Warn ''Skipping invalid message in history:'' msg]))"

definition loadHistory_resume ::
  "(jsval list \<Rightarrow> thrown + 'm list) \<Rightarrow> fetch_outcome \<Rightarrow> ('m, 'z) hook_scheme
     \<Rightarrow> ('m, 'z) hook_scheme" where
  "loadHistory_resume convertConversationHistory outcome h =
     (case outcome of
        FetchRejects e \<Rightarrow> loadHistory_catch e h
      | FetchResolves response \<Rightarrow>
          if \<not> ok response then
            loadHistory_catch
              (ErrorObj (''Failed to load conversation: '' @ show_nat (status response)
                           @ '' '' @ statusText response)) h
          else
            (case json response of
               Inl e \<Rightarrow> loadHistory_catch e h
             | Inr conversationHistory \<Rightarrow>
                 (case get_member conversationHistory ''messages'' of
                    Inl e \<Rightarrow> loadHistory_catch e h
                  | Inr msgs \<Rightarrow>
                      if \<not> truthy msgs \<or> \<not> isArray msgs then
                        loadHistory_catch (ErrorObj ''Invalid conversation history format'') h
                      else
                        (case loadHistory_loop (elements msgs) [] (console h) of
                           (timestampedMessages, lg) \<Rightarrow>
                             (case convertConversationHistory timestampedMessages of
                                Inl e \<Rightarrow> loadHistory_catch e (h\<lparr> console := lg \<rparr>)
                              | Inr convertedMessages \<Rightarrow>
                                  setState (\<lambda>prev. prev\<lparr> messages := convertedMessages,
                                              loading := False,
                                              sessionId := get_prop conversationHistory ''sessionId'' \<rparr>)
                                    (h\<lparr> console := lg \<rparr>))))))"

text \<open>
  A whole call with nothing else touching the hook in between: \<open>net\<close> gives what the
  fetch of a URL settles to.
\<close>

definition loadHistory ::
  "(jsval list \<Rightarrow> thrown + 'm list) \<Rightarrow> (string \<Rightarrow> string \<Rightarrow> string) \<Rightarrow> (string \<Rightarrow> fetch_outcome)
     \<Rightarrow> string \<Rightarrow> string \<Rightarrow> ('m, 'z) hook_scheme \<Rightarrow> ('m, 'z) hook_scheme" where
  "loadHistory convertConversationHistory getConversationUrl net encodedProjectName sessionIdArg h =
     (case loadHistory_start getConversationUrl encodedProjectName sessionIdArg h of
        (h1, None) \<Rightarrow> h1
      | (h1, Some u) \<Rightarrow> loadHistory_resume convertConversationHistory (net u) h1)"

definition clearHistory :: "('m, 'z) hook_scheme \<Rightarrow> ('m, 'z) hook_scheme" where
  "clearHistory h =
     h\<lparr> state := \<lparr> messages = [], loading = False, error = None, sessionId = Null \<rparr> \<rparr>"

section \<open>useAutoHistoryLoader: fetchAndConvert, the polling effect, clearHistory\<close>

definition POLLING_INTERVAL :: nat where
  "POLLING_INTERVAL = 3000"

text \<open>
  The hook's arguments. An optional string is falsy when it is \<^verbatim>\<open>undefined\<close> or
  empty.
\<close>

record props =
  encodedProjectName :: "string option"
  sessionIdArg :: "string option"
  enablePolling :: bool

fun falsy :: "string option \<Rightarrow> bool" where
  "falsy None = True"
| "falsy (Some s) = (s = [])"

text \<open>
  The instance of the auto-loading hook: state and console as before, the two refs, and
  the part of the platform it acts on: the interval timers it has installed (handle and
  period in milliseconds; a handle is never falsy), the next fresh handle, and the
  fetches that have been issued and have not settled (with the \<^verbatim>\<open>isPolling\<close> flag of
  the call that issued them).
\<close>

record 'm auto_hook = "'m hook" +
  lastMessageCountRef :: nat
  pollingRef :: "nat option"
  timers :: "(nat \<times> nat) list"
  next_handle :: nat
  inflight :: "(bool \<times> string) list"

definition fetchAndConvert_start ::
  "(string \<Rightarrow> string \<Rightarrow> string) \<Rightarrow> props \<Rightarrow> bool \<Rightarrow> 'm auto_hook
     \<Rightarrow> 'm auto_hook \<times> string option" where
  "fetchAndConvert_start getConversationUrl p isPolling w =
     (if falsy (encodedProjectName p) \<or> falsy (sessionIdArg p) then (w, None)
      else
        (case (encodedProjectName p, sessionIdArg p) of
           (Some name, Some sid) \<Rightarrow>
             (if \<not> isPolling
              then setState (\<lambda>prev. prev\<lparr> loading := True, error := None \<rparr>) w
              else w,
              Some (getConversationUrl name sid))
         | _ \<Rightarrow> (w, None)))"

definition fetchAndConvert_catch :: "thrown \<Rightarrow> 'm auto_hook \<Rightarrow> 'm auto_hook" where
  "fetchAndConvert_catch e w =
     setState (\<lambda>prev. prev\<lparr> loading := False,
                 error := Some (case e of ErrorObj message \<Rightarrow> message
                                | NonError \<Rightarrow> ''Failed to load conversation history'') \<rparr>)
       (console_log (Error ''Error loading conversation history:'' e) w)"

text \<open>The \<^verbatim>\<open>for\<close> loop of \<^verbatim>\<open>fetchAndConvert\<close>: it has no \<^verbatim>\<open>else\<close> branch.\<close>

fun fetchAndConvert_loop :: "jsval list \<Rightarrow> jsval list \<Rightarrow> jsval list" where
  "fetchAndConvert_loop [] timestampedMessages = timestampedMessages"
| "fetchAndConvert_loop (msg # rest) timestampedMessages =
     (if isTimestampedSDKMessage msg
      then fetchAndConvert_loop rest (timestampedMessages @ [msg])
      else fetchAndConvert_loop rest timestampedMessages)"

definition fetchAndConvert_resume ::
  "(jsval list \<Rightarrow> thrown + 'm list) \<Rightarrow> bool \<Rightarrow> fetch_outcome \<Rightarrow> 'm auto_hook \<Rightarrow> 'm auto_hook" where
  "fetchAndConvert_resume convertConversationHistory isPolling outcome w =
     (case outcome of
        FetchRejects e \<Rightarrow> fetchAndConvert_catch e w
      | FetchResolves response \<Rightarrow>
          if \<not> ok response then
            (if \<not> isPolling then
               fetchAndConvert_catch
                 (ErrorObj (''Failed to load conversation: '' @ show_nat (status response)
                              @ '' '' @ statusText response)) w
             else w)
          else
            (case json response of
               Inl e \<Rightarrow> fetchAndConvert_catch e w
             | Inr conversationHistory \<Rightarrow>
                 (case get_member conversationHistory ''messages'' of
                    Inl e \<Rightarrow> fetchAndConvert_catch e w
                  | Inr msgs \<Rightarrow>
                      if \<not> truthy msgs \<or> \<not> isArray msgs then
                        (if \<not> isPolling then
                           fetchAndConvert_catch (ErrorObj ''Invalid conversation history format'') w
                         else w)
                      else
                        (let newMessageCount = length (elements msgs) in
                         if isPolling \<and> newMessageCount \<le> lastMessageCountRef w then w
                         else
                           (let w1 =
                              (if isPolling then
                                 console_log
                                   (Log (''[Polling] Detected ''
                                         @ show_nat (newMessageCount - lastMessageCountRef w)
                                         @ '' new message(s), updating...'')) w
                               else w);
                                timestampedMessages = fetchAndConvert_loop (elements msgs) []
                            in
                              (case convertConversationHistory timestampedMessages of
                                 Inl e \<Rightarrow> fetchAndConvert_catch e w1
                               | Inr convertedMessages \<Rightarrow>
                                   (setState (\<lambda>prev. prev\<lparr> messages := convertedMessages,
                                                loading := False,
                                                sessionId := get_prop conversationHistory ''sessionId'' \<rparr>)
                                      w1)\<lparr> lastMessageCountRef := newMessageCount \<rparr>))))))"

definition auto_clearHistory :: "'m auto_hook \<Rightarrow> 'm auto_hook" where
  "auto_clearHistory w =
     (w\<lparr> state := \<lparr> messages = [], loading = False, error = None, sessionId = Null \<rparr> \<rparr>)
       \<lparr> lastMessageCountRef := 0 \<rparr>"

text \<open>
  The platform's timers: \<^verbatim>\<open>setInterval\<close> installs a timer under a fresh handle and
  returns the handle, \<^verbatim>\<open>clearInterval\<close> removes the timer with that handle.
\<close>

definition setInterval :: "nat \<Rightarrow> 'm auto_hook \<Rightarrow> 'm auto_hook \<times> nat" where
  "setInterval period w =
     (w\<lparr> timers := timers w @ [(next_handle w, period)],
         next_handle := Suc (next_handle w) \<rparr>,
      next_handle w)"

definition clearInterval :: "nat \<Rightarrow> 'm auto_hook \<Rightarrow> 'm auto_hook" where
  "clearInterval handle w = w\<lparr> timers := filter (\<lambda>t. fst t \<noteq> handle) (timers w) \<rparr>"

text \<open>
  The polling effect. Its body returns the hook and whether it has returned a cleanup
  function; \<open>polling_cleanup\<close> is that function.
\<close>

definition polling_effect :: "props \<Rightarrow> 'm auto_hook \<Rightarrow> 'm auto_hook \<times> bool" where
  "polling_effect p w =
     (let w1 = (case pollingRef w of
                  Some handle \<Rightarrow> (clearInterval handle w)\<lparr> pollingRef := None \<rparr>
                | None \<Rightarrow> w)
      in
        if \<not> enablePolling p \<or> falsy (encodedProjectName p) \<or> falsy (sessionIdArg p)
        then (w1, False)
        else (case setInterval POLLING_INTERVAL w1 of
                (w2, handle) \<Rightarrow> (w2\<lparr> pollingRef := Some handle \<rparr>, True)))"

definition polling_cleanup :: "'m auto_hook \<Rightarrow> 'm auto_hook" where
  "polling_cleanup w =
     (case pollingRef w of
        Some handle \<Rightarrow> (clearInterval handle w)\<lparr> pollingRef := None \<rparr>
      | None \<Rightarrow> w)"

text \<open>
  How React drives an effect: at the mount and after every render in which a dependency
  has changed it runs the cleanup the previous run returned, if any, and then the effect
  with the arguments of that render; at the unmount it runs the last cleanup. The list
  holds the arguments of these renders in order.
\<close>

fun run_polling_effects :: "props list \<Rightarrow> 'm auto_hook \<times> bool \<Rightarrow> 'm auto_hook \<times> bool" where
  "run_polling_effects [] wc = wc"
| "run_polling_effects (p # ps) (w, cleanup) =
     run_polling_effects ps (polling_effect p (if cleanup then polling_cleanup w else w))"

definition unmount :: "'m auto_hook \<times> bool \<Rightarrow> 'm auto_hook" where
  "unmount wc = (if snd wc then polling_cleanup (fst wc) else fst wc)"

text \<open>
  The events of the polling loop under fixed arguments. \<open>Tick\<close>: an installed interval
  timer fires and its callback calls \<^verbatim>\<open>fetchAndConvert(true)\<close> without awaiting it;
  the fetch it issues joins the outstanding ones. \<open>Settle i outcome\<close>: the \<open>i\<close>-th
  outstanding fetch settles and the call that issued it resumes.
\<close>

datatype event = Tick | Settle nat fetch_outcome

definition tick :: "(string \<Rightarrow> string \<Rightarrow> string) \<Rightarrow> props \<Rightarrow> 'm auto_hook \<Rightarrow> 'm auto_hook" where
  "tick getConversationUrl p w =
     (if timers w = [] then w
      else (case fetchAndConvert_start getConversationUrl p True w of
              (w1, None) \<Rightarrow> w1
            | (w1, Some u) \<Rightarrow> w1\<lparr> inflight := inflight w1 @ [(True, u)] \<rparr>))"

definition settle ::
  "(jsval list \<Rightarrow> thrown + 'm list) \<Rightarrow> nat \<Rightarrow> fetch_outcome \<Rightarrow> 'm auto_hook \<Rightarrow> 'm auto_hook" where
  "settle convertConversationHistory i outcome w =
     (if i < length (inflight w) then
        fetchAndConvert_resume convertConversationHistory (fst (inflight w ! i)) outcome
          (w\<lparr> inflight := take i (inflight w) @ drop (Suc i) (inflight w) \<rparr>)
      else w)"

fun run_events ::
  "(jsval list \<Rightarrow> thrown + 'm list) \<Rightarrow> (string \<Rightarrow> string \<Rightarrow> string) \<Rightarrow> props
     \<Rightarrow> event list \<Rightarrow> 'm auto_hook \<Rightarrow> 'm auto_hook" where
  "run_events conv url p [] w = w"
| "run_events conv url p (Tick # evs) w = run_events conv url p evs (tick url p w)"
| "run_events conv url p (Settle i outcome # evs) w =
     run_events conv url p evs (settle conv i outcome w)"

text \<open>The number of outstanding fetches that were issued by the polling timer.\<close>

definition polls_in_flight :: "'m auto_hook \<Rightarrow> nat" where
  "polls_in_flight w = length (filter fst (inflight w))"

section \<open>ChatMessages: renderMessage\<close>

text \<open>
  The type guards and the message type come from the module \<^verbatim>\<open>types\<close>, which is not
  among the sources: the guards are parameters, and so is the text that
  \<^verbatim>\<open>message.timestamp\<close> takes inside the key's template literal. A rendered element
  is the component with its \<^verbatim>\<open>key\<close> and its \<^verbatim>\<open>message\<close> prop.
\<close>

record 'm guards =
  isChatMessage :: "'m \<Rightarrow> bool"
  isSystemMessage :: "'m \<Rightarrow> bool"
  isToolMessage :: "'m \<Rightarrow> bool"
  isToolResultMessage :: "'m \<Rightarrow> bool"
  isPlanMessage :: "'m \<Rightarrow> bool"
  isThinkingMessage :: "'m \<Rightarrow> bool"
  isTodoMessage :: "'m \<Rightarrow> bool"

datatype component =
    ChatMessageComponent
  | SystemMessageComponent
  | ToolMessageComponent
  | ToolResultMessageComponent
  | PlanMessageComponent
  | ThinkingMessageComponent
  | TodoMessageComponent

datatype 'm rendered = Element component string 'm

definition renderMessage ::
  "'m guards \<Rightarrow> ('m \<Rightarrow> string) \<Rightarrow> 'm \<Rightarrow> nat \<Rightarrow> 'm rendered option" where
  "renderMessage G timestamp message index =
     (let key = timestamp message @ ''-'' @ show_nat index in
      if isSystemMessage G message then Some (Element SystemMessageComponent key message)
      else if isToolMessage G message then Some (Element ToolMessageComponent key message)
      else if isToolResultMessage G message then Some (Element ToolResultMessageComponent key message)
      else if isPlanMessage G message then Some (Element PlanMessageComponent key message)
      else if isThinkingMessage G message then Some (Element ThinkingMessageComponent key message)
      else if isTodoMessage G message then Some (Element TodoMessageComponent key message)
      else if isChatMessage G message then Some (Element ChatMessageComponent key message)
      else None)"

text \<open>
  The dispatch as the specification words it: the guards in their fixed order, each with
  its component, and the component of the first guard the message satisfies.
\<close>

definition guard_order :: "'m guards \<Rightarrow> (('m \<Rightarrow> bool) \<times> component) list" where
  "guard_order G =
     [(isSystemMessage G, SystemMessageComponent),
      (isToolMessage G, ToolMessageComponent),
      (isToolResultMessage G, ToolResultMessageComponent),
      (isPlanMessage G, PlanMessageComponent),
      (isThinkingMessage G, ThinkingMessageComponent),
      (isTodoMessage G, TodoMessageComponent),
      (isChatMessage G, ChatMessageComponent)]"

definition first_satisfied :: "'m guards \<Rightarrow> 'm \<Rightarrow> component option" where
  "first_satisfied G message =
     map_option snd (find (\<lambda>gc. fst gc message) (guard_order G))"

section \<open>MarkdownRenderer: isValidUrl and the link component\<close>

text \<open>
  \<^verbatim>\<open>new URL(href, base).protocol\<close> is the platform's URL parser: the parameter
  \<open>url_protocol\<close> gives the protocol of the resolved URL, or \<open>None\<close> when the
  constructor throws. \<open>origin\<close> is \<^verbatim>\<open>window.location.origin\<close>.
\<close>

definition startsWith :: "string \<Rightarrow> string \<Rightarrow> bool" where
  "startsWith s prefix = (take (length prefix) s = prefix)"

definition allowedProtocols :: "string list" where
  "allowedProtocols = [''http:'', ''https:'', ''mailto:'']"

definition isValidUrl ::
  "(string \<Rightarrow> string \<Rightarrow> string option) \<Rightarrow> string \<Rightarrow> string option \<Rightarrow> bool" where
  "isValidUrl url_protocol origin href =
     (case href of
        None \<Rightarrow> False
      | Some h \<Rightarrow>
          if h = [] then False
          else (case url_protocol h origin of
                  Some protocol \<Rightarrow> protocol \<in> set allowedProtocols
                | None \<Rightarrow> startsWith h ''/'' \<or> startsWith h ''#''))"

text \<open>
  What the \<^verbatim>\<open>a\<close> component returns: a span with its class, or an anchor with its
  href, target, rel and class; both around the children.
\<close>

datatype 'c element =
    Span string 'c
  | Anchor "string option" string string string 'c

definition markdown_a ::
  "(string \<Rightarrow> string \<Rightarrow> string option) \<Rightarrow> string \<Rightarrow> string option \<Rightarrow> 'c \<Rightarrow> 'c element" where
  "markdown_a url_protocol origin href children =
     (if \<not> isValidUrl url_protocol origin href then Span ''mava-text'' children
      else Anchor href ''_blank'' ''noopener noreferrer'' ''mava-link hover:underline'' children)"

section \<open>The hooks at the mount, and sample data\<close>

text \<open>The initial values of \<^verbatim>\<open>useState\<close> and \<^verbatim>\<open>useRef\<close>; nothing is installed or outstanding.\<close>

definition useHistoryLoader_init :: "'m hook" where
  "useHistoryLoader_init =
     \<lparr> state = \<lparr> messages = [], loading = False, error = None, sessionId = Null \<rparr>,
       console = [] \<rparr>"

definition useAutoHistoryLoader_init :: "'m auto_hook" where
  "useAutoHistoryLoader_init =
     \<lparr> state = \<lparr> messages = [], loading = False, error = None, sessionId = Null \<rparr>,
       console = [],
       lastMessageCountRef = 0, pollingRef = None, timers = [], next_handle = 1,
       inflight = [] \<rparr>"

text \<open>
  A conversation history of three entries, the second of which is not a timestamped
  message, and the response that carries it.
\<close>

definition example_message :: "string \<Rightarrow> jsval" where
  "example_message t = Obj [(''type'', Str ''user''), (''timestamp'', Str t)]"

definition example_history :: jsval where
  "example_history =
     Obj [(''sessionId'', Str ''s1''),
          (''messages'', Arr [example_message ''t1'', Num 5, example_message ''t2''])]"

definition example_response :: response where
  "example_response = \<lparr> ok = True, status = 200, statusText = ''OK'', json = Inr example_history \<rparr>"

definition example_props :: props where
  "example_props =
     \<lparr> encodedProjectName = Some ''proj'', sessionIdArg = Some ''s1'', enablePolling = True \<rparr>"

text \<open>
  A stand-in for the URL parser on four hrefs: an absolute https URL, a javascript URL, a
  path (resolved against the origin), and anything else, on which it fails.
\<close>

definition example_url_protocol :: "string \<Rightarrow> string \<Rightarrow> string option" where
  "example_url_protocol href base =
     (if href = ''https://example.com/a'' then Some ''https:''
      else if href = ''javascript:alert(1)'' then Some ''javascript:''
      else if href = ''/docs'' then Some ''http:''
      else None)"

section \<open>Auxiliary facts\<close>

lemma loadHistory_loop_filter:
  "loadHistory_loop ms acc lg =
     (acc @ filter isTimestampedSDKMessage ms,
      lg @ map (Warn ''Skipping invalid message in history:'')
             (filter (\<lambda>m. \<not> isTimestampedSDKMessage m) ms))"
  by (induction ms arbitrary: acc lg) simp_all

lemma fetchAndConvert_loop_filter:
  "fetchAndConvert_loop ms acc = acc @ filter isTimestampedSDKMessage ms"
  by (induction ms arbitrary: acc) simp_all

lemma example_history_messages:
  "get_member example_history ''messages'' =
     Inr (Arr [example_message ''t1'', Num 5, example_message ''t2''])"
  by (simp add: example_history_def)

lemma example_response_ok:
  "ok example_response" "json example_response = Inr example_history"
  by (simp_all add: example_response_def)

lemma example_guard:
  "isTimestampedSDKMessage (example_message t)" "\<not> isTimestampedSDKMessage (Num 5)"
  by (simp_all add: isTimestampedSDKMessage_def example_message_def)

lemma state_loadHistory_catch:
  "state (loadHistory_catch e h) =
     (state h)\<lparr> loading := False,
                error := Some (case e of ErrorObj message \<Rightarrow> message
                               | NonError \<Rightarrow> ''Failed to load conversation history'') \<rparr>"
  by (simp add: loadHistory_catch_def setState_def console_log_def)

lemma state_fetchAndConvert_catch:
  "state (fetchAndConvert_catch e w) =
     (state w)\<lparr> loading := False,
                error := Some (case e of ErrorObj message \<Rightarrow> message
                               | NonError \<Rightarrow> ''Failed to load conversation history'') \<rparr>"
  by (simp add: fetchAndConvert_catch_def setState_def console_log_def)

lemma messages_fetchAndConvert_catch:
  "messages (state (fetchAndConvert_catch e w)) = messages (state w)"
  by (simp add: state_fetchAndConvert_catch)

text \<open>The successful path of \<open>loadHistory_resume\<close>, with the loop written as a filter.\<close>

lemma loadHistory_resume_convert:
  assumes "ok r" "json r = Inr ch" "get_member ch ''messages'' = Inr (Arr ms)"
  shows "loadHistory_resume conv (FetchResolves r) h =
     (let h1 = h\<lparr> console := console h @ map (Warn ''Skipping invalid message in history:'')
                                          (filter (\<lambda>m. \<not> isTimestampedSDKMessage m) ms) \<rparr>
      in case conv (filter isTimestampedSDKMessage ms) of
           Inl e \<Rightarrow> loadHistory_catch e h1
         | Inr cm \<Rightarrow>
             setState (\<lambda>prev. prev\<lparr> messages := cm, loading := False,
                         sessionId := get_prop ch ''sessionId'' \<rparr>) h1)"
  using assms
  by (simp add: loadHistory_resume_def loadHistory_loop_filter Let_def)

text \<open>A body without a messages array: the member access throws, or the format check fails.\<close>

lemma get_member_not_array:
  assumes "\<not> (\<exists>ms. get_member ch ''messages'' = Inr (Arr ms))"
  shows "(\<exists>e. get_member ch ''messages'' = Inl e) \<or>
         (\<exists>v. get_member ch ''messages'' = Inr v \<and> (\<not> truthy v \<or> \<not> isArray v))"
proof (cases "get_member ch ''messages''")
  case (Inl e)
  then show ?thesis by simp
next
  case (Inr v)
  with assms show ?thesis by (cases v) simp_all
qed

lemma loadHistory_resume_no_array:
  assumes "ok r" "json r = Inr ch" "\<not> (\<exists>ms. get_member ch ''messages'' = Inr (Arr ms))"
  shows "\<exists>e. loadHistory_resume conv (FetchResolves r) h = loadHistory_catch e h
            \<and> (ch \<noteq> Null \<longrightarrow> ch \<noteq> Undefined \<longrightarrow> e = ErrorObj ''Invalid conversation history format'')"
  using get_member_not_array [OF assms(3)] assms(1,2)
  by (cases ch) (auto simp add: loadHistory_resume_def)

text \<open>The paths of \<open>fetchAndConvert_resume\<close> once a messages array has arrived.\<close>

lemma fetchAndConvert_resume_polling_skip:
  assumes "ok r" "json r = Inr ch" "get_member ch ''messages'' = Inr (Arr ms)"
      and "length ms \<le> lastMessageCountRef w"
  shows "fetchAndConvert_resume conv True (FetchResolves r) w = w"
  using assms by (simp add: fetchAndConvert_resume_def)

lemma fetchAndConvert_resume_convert:
  assumes "ok r" "json r = Inr ch" "get_member ch ''messages'' = Inr (Arr ms)"
      and "isPolling \<longrightarrow> lastMessageCountRef w < length ms"
  shows "fetchAndConvert_resume conv isPolling (FetchResolves r) w =
     (let w1 = (if isPolling
                then console_log (Log (''[Polling] Detected ''
                        @ show_nat (length ms - lastMessageCountRef w)
                        @ '' new message(s), updating...'')) w
                else w)
      in case conv (filter isTimestampedSDKMessage ms) of
           Inl e \<Rightarrow> fetchAndConvert_catch e w1
         | Inr cm \<Rightarrow>
             (setState (\<lambda>prev. prev\<lparr> messages := cm, loading := False,
                          sessionId := get_prop ch ''sessionId'' \<rparr>) w1)
               \<lparr> lastMessageCountRef := length ms \<rparr>)"
  using assms
  by (auto simp add: fetchAndConvert_resume_def fetchAndConvert_loop_filter Let_def not_le)

text \<open>
  A polling call that changes the messages has fetched an array longer than the recorded
  count and has converted it: every other path leaves the messages alone.
\<close>

lemma fetchAndConvert_resume_messages_changed:
  assumes "messages (state (fetchAndConvert_resume conv True outcome w)) \<noteq> messages (state w)"
  shows "\<exists>r ch ms cm. outcome = FetchResolves r \<and> ok r \<and> json r = Inr ch
           \<and> get_member ch ''messages'' = Inr (Arr ms)
           \<and> lastMessageCountRef w < length ms
           \<and> conv (filter isTimestampedSDKMessage ms) = Inr cm
           \<and> messages (state (fetchAndConvert_resume conv True outcome w)) = cm"
proof (cases outcome)
  case (FetchRejects e)
  with assms show ?thesis
    by (simp add: fetchAndConvert_resume_def messages_fetchAndConvert_catch)
next
  case (FetchResolves r)
  show ?thesis
  proof (cases "ok r")
    case False
    with assms FetchResolves show ?thesis by (simp add: fetchAndConvert_resume_def)
  next
    case okr: True
    show ?thesis
    proof (cases "json r")
      case (Inl e)
      with assms FetchResolves okr show ?thesis
        by (simp add: fetchAndConvert_resume_def messages_fetchAndConvert_catch)
    next
      case (Inr ch)
      show ?thesis
      proof (cases "get_member ch ''messages''")
        case (Inl e)
        with assms FetchResolves okr Inr show ?thesis
          by (simp add: fetchAndConvert_resume_def messages_fetchAndConvert_catch)
      next
        case mem: (Inr msgs)
        show ?thesis
        proof (cases msgs)
          case (Arr ms)
          show ?thesis
          proof (cases "length ms \<le> lastMessageCountRef w")
            case True
            with assms FetchResolves okr Inr mem Arr show ?thesis
              by (simp add: fetchAndConvert_resume_polling_skip)
          next
            case False
            then have lt: "lastMessageCountRef w < length ms" by simp
            have eq: "get_member ch ''messages'' = Inr (Arr ms)" using mem Arr by simp
            note run = fetchAndConvert_resume_convert [OF okr Inr eq, of True w conv, simplified, OF lt]
            show ?thesis
            proof (cases "conv (filter isTimestampedSDKMessage ms)")
              case (Inl e)
              with assms FetchResolves run show ?thesis
                by (simp add: messages_fetchAndConvert_catch console_log_def)
            next
              case cm: (Inr cm)
              with FetchResolves run okr Inr eq lt show ?thesis
                by (simp add: setState_def console_log_def)
            qed
          qed
        qed (use assms FetchResolves okr Inr mem in \<open>simp_all add: fetchAndConvert_resume_def\<close>)
      qed
    qed
  qed
qed

text \<open>
  The polling effect and its cleanup keep the hook's timers in step with
  \<open>pollingRef\<close>: no timer when the ref is empty, the one timer of the ref's handle
  otherwise.
\<close>

lemma polling_cleanup_clears:
  assumes "timers w = (case pollingRef w of None \<Rightarrow> [] | Some handle \<Rightarrow> [(handle, POLLING_INTERVAL)])"
  shows "timers (polling_cleanup w) = [] \<and> pollingRef (polling_cleanup w) = None"
  using assms by (simp add: polling_cleanup_def clearInterval_def split: option.splits)

lemma polling_effect_installs:
  assumes "timers w = (case pollingRef w of None \<Rightarrow> [] | Some handle \<Rightarrow> [(handle, POLLING_INTERVAL)])"
  shows "polling_effect p w =
     (if enablePolling p \<and> \<not> falsy (encodedProjectName p) \<and> \<not> falsy (sessionIdArg p)
      then (w\<lparr> timers := [(next_handle w, POLLING_INTERVAL)], next_handle := Suc (next_handle w),
               pollingRef := Some (next_handle w) \<rparr>, True)
      else (w\<lparr> timers := [], pollingRef := None \<rparr>, False))"
  using assms
  by (auto simp add: polling_effect_def clearInterval_def setInterval_def Let_def split: option.splits)

lemma polling_effect_inv:
  assumes "timers w = (case pollingRef w of None \<Rightarrow> [] | Some handle \<Rightarrow> [(handle, POLLING_INTERVAL)])"
  shows "timers (fst (polling_effect p w)) =
           (case pollingRef (fst (polling_effect p w)) of None \<Rightarrow> []
            | Some handle \<Rightarrow> [(handle, POLLING_INTERVAL)])"
  by (simp add: polling_effect_installs [OF assms])

lemma polling_cleanup_inv:
  assumes "timers w = (case pollingRef w of None \<Rightarrow> [] | Some handle \<Rightarrow> [(handle, POLLING_INTERVAL)])"
  shows "timers (polling_cleanup w) =
           (case pollingRef (polling_cleanup w) of None \<Rightarrow> []
            | Some handle \<Rightarrow> [(handle, POLLING_INTERVAL)])"
  by (simp add: polling_cleanup_clears [OF assms])

lemma run_polling_effects_inv:
  assumes "timers w = (case pollingRef w of None \<Rightarrow> [] | Some handle \<Rightarrow> [(handle, POLLING_INTERVAL)])"
  shows "timers (fst (run_polling_effects ps (w, c))) =
           (case pollingRef (fst (run_polling_effects ps (w, c))) of None \<Rightarrow> []
            | Some handle \<Rightarrow> [(handle, POLLING_INTERVAL)])"
  using assms
proof (induction ps arbitrary: w c)
  case Nil
  then show ?case by simp
next
  case (Cons p ps)
  let ?w = "if c then polling_cleanup w else w"
  have inv: "timers ?w = (case pollingRef ?w of None \<Rightarrow> [] | Some handle \<Rightarrow> [(handle, POLLING_INTERVAL)])"
    using Cons.prems polling_cleanup_inv [OF Cons.prems] by simp
  obtain w' c' where eff: "polling_effect p ?w = (w', c')" by (cases "polling_effect p ?w")
  with polling_effect_inv [OF inv, of p]
  have "timers w' = (case pollingRef w' of None \<Rightarrow> [] | Some handle \<Rightarrow> [(handle, POLLING_INTERVAL)])"
    by simp
  from Cons.IH [OF this, of c'] eff show ?case by simp
qed

lemma run_polling_effects_snoc:
  "run_polling_effects (ps @ [p]) wc =
     (case run_polling_effects ps wc of
        (w, c) \<Rightarrow> polling_effect p (if c then polling_cleanup w else w))"
  by (induction ps wc rule: run_polling_effects.induct) (simp_all split: prod.splits)

text \<open>Resuming a call touches neither the timers nor the outstanding fetches.\<close>

lemma fetchAndConvert_catch_platform:
  "inflight (fetchAndConvert_catch e w) = inflight w"
  "timers (fetchAndConvert_catch e w) = timers w"
  by (simp_all add: fetchAndConvert_catch_def setState_def console_log_def)

lemma fetchAndConvert_resume_platform:
  "inflight (fetchAndConvert_resume conv b outcome w) = inflight w
   \<and> timers (fetchAndConvert_resume conv b outcome w) = timers w"
  by (simp add: fetchAndConvert_resume_def fetchAndConvert_catch_platform setState_def
      console_log_def Let_def split: fetch_outcome.splits sum.splits)

lemma settle_removes:
  assumes "i < length (inflight w)"
  shows "inflight (settle conv i outcome w) = take i (inflight w) @ drop (Suc i) (inflight w)"
  using assms by (simp add: settle_def fetchAndConvert_resume_platform)

text \<open>A tick of an installed timer with both identifiers present issues a fetch.\<close>

lemma tick_starts_fetch:
  assumes "timers w \<noteq> []" "\<not> falsy (encodedProjectName p)" "\<not> falsy (sessionIdArg p)"
  shows "\<exists>u. tick url p w = w\<lparr> inflight := inflight w @ [(True, u)] \<rparr>"
  using assms
  by (cases "encodedProjectName p"; cases "sessionIdArg p")
     (auto simp add: tick_def fetchAndConvert_start_def)

text \<open>The fetch a tick issues, and a tick where no timer is installed.\<close>

lemma tick_issues_poll:
  assumes "timers w \<noteq> []" "encodedProjectName p = Some name" "sessionIdArg p = Some sid"
      and "name \<noteq> []" "sid \<noteq> []"
  shows "tick url p w = w\<lparr> inflight := inflight w @ [(True, url name sid)] \<rparr>"
  using assms by (simp add: tick_def fetchAndConvert_start_def)

lemma tick_without_timer:
  assumes "timers w = []"
  shows "tick url q w = w"
  using assms by (simp add: tick_def)

lemma falsy_iff: "\<not> falsy x \<longleftrightarrow> (\<exists>s. x = Some s \<and> s \<noteq> [])"
  by (cases x) simp_all

section \<open>Polling updates the view only when the message count has grown\<close>

text \<open>
  C1: a polling call of \<^verbatim>\<open>fetchAndConvert\<close> changes nothing before its fetch has
  settled, and when the fetched messages array is no longer than the recorded count it
  leaves the whole hook (messages, loading, error, sessionId, the recorded count, the
  console) as it found it. Conversely, whenever a polling call changes the messages, the
  fetched array was strictly longer than the recorded count and the new messages are the
  converted ones.
\<close>

theorem polling_updates_only_on_increase:
  "fst (fetchAndConvert_start url p True w) = w
   \<and> (ok r \<and> json r = Inr ch \<and> get_member ch ''messages'' = Inr (Arr ms)
        \<and> length ms \<le> lastMessageCountRef w \<longrightarrow>
      fetchAndConvert_resume conv True (FetchResolves r) w = w)
   \<and> (messages (state (fetchAndConvert_resume conv True outcome w)) \<noteq> messages (state w) \<longrightarrow>
      (\<exists>r' ch' ms' cm. outcome = FetchResolves r' \<and> ok r' \<and> json r' = Inr ch'
           \<and> get_member ch' ''messages'' = Inr (Arr ms')
           \<and> lastMessageCountRef w < length ms'
           \<and> conv (filter isTimestampedSDKMessage ms') = Inr cm
           \<and> messages (state (fetchAndConvert_resume conv True outcome w)) = cm))"
proof -
  have "fst (fetchAndConvert_start url p True w) = w"
    by (simp add: fetchAndConvert_start_def split: option.splits)
  then show ?thesis
    using fetchAndConvert_resume_polling_skip [of r ch ms w conv]
      fetchAndConvert_resume_messages_changed [of conv outcome w]
    by blast
qed

theorem polling_updates_only_on_increase_witness:
  "ok example_response \<and> json example_response = Inr example_history
   \<and> get_member example_history ''messages''
        = Inr (Arr [example_message ''t1'', Num 5, example_message ''t2''])
   \<and> length [example_message ''t1'', Num 5, example_message ''t2'']
        \<le> lastMessageCountRef (useAutoHistoryLoader_init\<lparr> lastMessageCountRef := 3 \<rparr> :: jsval auto_hook)
   \<and> fetchAndConvert_resume Inr True (FetchResolves example_response)
        (useAutoHistoryLoader_init\<lparr> lastMessageCountRef := 3 \<rparr> :: jsval auto_hook)
      = useAutoHistoryLoader_init\<lparr> lastMessageCountRef := 3 \<rparr>
   \<and> messages (state (fetchAndConvert_resume Inr True (FetchResolves example_response)
        (useAutoHistoryLoader_init\<lparr> lastMessageCountRef := 2 \<rparr> :: jsval auto_hook)))
      \<noteq> messages (state (useAutoHistoryLoader_init\<lparr> lastMessageCountRef := 2 \<rparr> :: jsval auto_hook))
   \<and> messages (state (fetchAndConvert_resume Inr True (FetchResolves example_response)
        (useAutoHistoryLoader_init\<lparr> lastMessageCountRef := 2 \<rparr> :: jsval auto_hook)))
      = [example_message ''t1'', example_message ''t2'']"
proof -
  let ?ms = "[example_message ''t1'', Num 5, example_message ''t2'']"
  let ?w3 = "useAutoHistoryLoader_init\<lparr> lastMessageCountRef := 3 \<rparr> :: jsval auto_hook"
  let ?w2 = "useAutoHistoryLoader_init\<lparr> lastMessageCountRef := 2 \<rparr> :: jsval auto_hook"
  have run: "messages (state (fetchAndConvert_resume Inr True (FetchResolves example_response) ?w2))
      = [example_message ''t1'', example_message ''t2'']"
    by (simp add: fetchAndConvert_resume_convert [OF example_response_ok example_history_messages]
        example_guard setState_def console_log_def useAutoHistoryLoader_init_def)
  have changed: "messages (state (fetchAndConvert_resume Inr True (FetchResolves example_response) ?w2))
      \<noteq> messages (state ?w2)"
    by (simp add: run) (simp add: useAutoHistoryLoader_init_def)
  have skip: "fetchAndConvert_resume Inr True (FetchResolves example_response) ?w3 = ?w3"
    using polling_updates_only_on_increase
      [of "(@)" example_props ?w3 example_response example_history ?ms Inr
          "FetchResolves example_response"]
      example_response_ok example_history_messages
    by (simp add: useAutoHistoryLoader_init_def)
  have "\<exists>r' ch' ms' cm. FetchResolves example_response = FetchResolves r'
           \<and> lastMessageCountRef ?w2 < length ms'
           \<and> Inr (filter isTimestampedSDKMessage ms') = (Inr cm :: thrown + jsval list)"
    using polling_updates_only_on_increase
      [of "(@)" example_props ?w2 example_response example_history ?ms Inr
          "FetchResolves example_response"] changed
    by blast
  with skip run changed example_response_ok example_history_messages
  show ?thesis by (simp add: useAutoHistoryLoader_init_def)
qed

section \<open>A failure while polling reaches the catch block\<close>

text \<open>
  C2: the specification has every failure of a polling fetch swallowed, the state left
  as it was and the error never set. The two returns guarded by \<^verbatim>\<open>isPolling\<close> do
  that for a response that is not ok and for a body whose messages member is no array.
  The \<^verbatim>\<open>catch\<close> block does not look at \<^verbatim>\<open>isPolling\<close>: when the fetch rejects,
  when \<^verbatim>\<open>response.json()\<close> rejects and when the body is \<^verbatim>\<open>null\<close>, a polling call
  sets loading to false and the error to a text.
\<close>

theorem polling_failure_reaches_catch:
  "(\<not> ok r \<longrightarrow> fetchAndConvert_resume conv True (FetchResolves r) w = w)
   \<and> (ok r \<and> json r = Inr ch \<and> get_member ch ''messages'' = Inr v \<and> \<not> isArray v \<longrightarrow>
        fetchAndConvert_resume conv True (FetchResolves r) w = w)
   \<and> state (fetchAndConvert_resume conv True (FetchRejects e) w)
       = (state w)\<lparr> loading := False,
            error := Some (case e of ErrorObj message \<Rightarrow> message
                           | NonError \<Rightarrow> ''Failed to load conversation history'') \<rparr>
   \<and> (ok r \<and> json r = Inl e \<longrightarrow>
        state (fetchAndConvert_resume conv True (FetchResolves r) w)
          = (state w)\<lparr> loading := False,
               error := Some (case e of ErrorObj message \<Rightarrow> message
                              | NonError \<Rightarrow> ''Failed to load conversation history'') \<rparr>)
   \<and> (ok r \<and> json r = Inr Null \<longrightarrow>
        (\<exists>text. state (fetchAndConvert_resume conv True (FetchResolves r) w)
                   = (state w)\<lparr> loading := False, error := Some text \<rparr>))"
  by (auto simp add: fetchAndConvert_resume_def state_fetchAndConvert_catch member_TypeError_def)

theorem polling_failure_reaches_catch_witness:
  "error (state (useAutoHistoryLoader_init :: jsval auto_hook)) = None
   \<and> fetchAndConvert_resume Inr True
        (FetchResolves \<lparr> ok = False, status = 500, statusText = ''Internal Server Error'',
                         json = Inl NonError \<rparr>)
        (useAutoHistoryLoader_init :: jsval auto_hook)
      = useAutoHistoryLoader_init
   \<and> fetchAndConvert_resume Inr True
        (FetchResolves \<lparr> ok = True, status = 200, statusText = ''OK'',
                         json = Inr (Obj [(''sessionId'', Str ''s1'')]) \<rparr>)
        (useAutoHistoryLoader_init :: jsval auto_hook)
      = useAutoHistoryLoader_init
   \<and> state (fetchAndConvert_resume Inr True (FetchRejects (ErrorObj ''Failed to fetch''))
             (useAutoHistoryLoader_init :: jsval auto_hook))
       = \<lparr> messages = [], loading = False, error = Some ''Failed to fetch'', sessionId = Null \<rparr>
   \<and> state (fetchAndConvert_resume Inr True
              (FetchResolves \<lparr> ok = True, status = 200, statusText = ''OK'',
                               json = Inl (ErrorObj ''Unexpected end of JSON input'') \<rparr>)
             (useAutoHistoryLoader_init :: jsval auto_hook))
       = \<lparr> messages = [], loading = False, error = Some ''Unexpected end of JSON input'',
           sessionId = Null \<rparr>
   \<and> error (state (fetchAndConvert_resume Inr True
              (FetchResolves \<lparr> ok = True, status = 200, statusText = ''OK'', json = Inr Null \<rparr>)
             (useAutoHistoryLoader_init :: jsval auto_hook)))
       \<noteq> None"
proof -
  let ?w = "useAutoHistoryLoader_init :: jsval auto_hook"
  let ?r1 = "\<lparr> ok = False, status = 500, statusText = ''Internal Server Error'', json = Inl NonError \<rparr>"
  let ?b2 = "Obj [(''sessionId'', Str ''s1'')]"
  let ?r2 = "\<lparr> ok = True, status = 200, statusText = ''OK'', json = Inr ?b2 \<rparr>"
  let ?r3 = "\<lparr> ok = True, status = 200, statusText = ''OK'',
               json = Inl (ErrorObj ''Unexpected end of JSON input'') \<rparr>"
  let ?r4 = "\<lparr> ok = True, status = 200, statusText = ''OK'', json = Inr Null \<rparr>"
  note t = polling_failure_reaches_catch [where conv = Inr and w = ?w]
  have st: "state ?w = \<lparr> messages = [], loading = False, error = None, sessionId = Null \<rparr>"
    by (simp add: useAutoHistoryLoader_init_def)
  have a: "fetchAndConvert_resume Inr True (FetchResolves ?r1) ?w = ?w"
    using t [of ?r1 Null Null NonError] by simp
  have b: "fetchAndConvert_resume Inr True (FetchResolves ?r2) ?w = ?w"
    using t [of ?r2 ?b2 Undefined NonError] by simp
  have c: "state (fetchAndConvert_resume Inr True (FetchRejects (ErrorObj ''Failed to fetch'')) ?w)
       = \<lparr> messages = [], loading = False, error = Some ''Failed to fetch'', sessionId = Null \<rparr>"
    using t [of ?r1 Null Null "ErrorObj ''Failed to fetch''"] by (simp add: st)
  have d: "state (fetchAndConvert_resume Inr True (FetchResolves ?r3) ?w)
       = \<lparr> messages = [], loading = False, error = Some ''Unexpected end of JSON input'',
           sessionId = Null \<rparr>"
    using t [of ?r3 Null Null "ErrorObj ''Unexpected end of JSON input''"] by (simp add: st)
  have e: "error (state (fetchAndConvert_resume Inr True (FetchResolves ?r4) ?w)) \<noteq> None"
    using t [of ?r4 Null Null NonError] by auto
  from a b c d e st show ?thesis by simp
qed

section \<open>Poll ticks do not wait for an outstanding fetch\<close>

text \<open>
  C3 (as amended): the interval callback calls \<^verbatim>\<open>fetchAndConvert(true)\<close> without
  looking at what is outstanding. While a timer is installed and both identifiers are
  present, every tick adds one outstanding polling fetch, whatever their number, so
  \<open>n\<close> ticks with no fetch settling in between add \<open>n\<close>; a fetch that settles
  is removed from the outstanding ones, and no other is.
\<close>

theorem every_tick_starts_a_fetch:
  assumes "timers w \<noteq> []" "\<not> falsy (encodedProjectName p)" "\<not> falsy (sessionIdArg p)"
  shows "polls_in_flight (tick url p w) = Suc (polls_in_flight w)
       \<and> polls_in_flight (run_events conv url p (replicate n Tick) w) = polls_in_flight w + n
       \<and> (i < length (inflight w) \<longrightarrow>
            inflight (settle conv i outcome w) = take i (inflight w) @ drop (Suc i) (inflight w))"
proof -
  have step: "polls_in_flight (tick url p v) = Suc (polls_in_flight v) \<and> timers (tick url p v) = timers v"
    if "timers v \<noteq> []" for v :: "'a auto_hook"
  proof -
    from tick_starts_fetch [OF that assms(2,3), of url]
    obtain u where "tick url p v = v\<lparr> inflight := inflight v @ [(True, u)] \<rparr>" ..
    then show ?thesis by (simp add: polls_in_flight_def)
  qed
  have many: "polls_in_flight (run_events conv url p (replicate n Tick) v) = polls_in_flight v + n"
    if "timers v \<noteq> []" for v :: "'a auto_hook"
    using that
  proof (induction n arbitrary: v)
    case 0
    then show ?case by simp
  next
    case (Suc n)
    from step [OF Suc.prems] have s: "polls_in_flight (tick url p v) = Suc (polls_in_flight v)"
      and t: "timers (tick url p v) \<noteq> []" using Suc.prems by simp_all
    from Suc.IH [OF t] s show ?case by simp
  qed
  from step [OF assms(1)] many [OF assms(1)] settle_removes [of i w conv outcome]
  show ?thesis by simp
qed

theorem every_tick_starts_a_fetch_witness:
  "timers (fst (polling_effect example_props (useAutoHistoryLoader_init :: jsval auto_hook))) \<noteq> []
   \<and> \<not> falsy (encodedProjectName example_props)
   \<and> \<not> falsy (sessionIdArg example_props)
   \<and> polls_in_flight
       (run_events Inr (@) example_props (replicate 5 Tick)
          (fst (polling_effect example_props (useAutoHistoryLoader_init :: jsval auto_hook))))
     = 5
   \<and> inflight
       (settle Inr 0 (FetchResolves example_response)
          (tick (@) example_props
             (fst (polling_effect example_props (useAutoHistoryLoader_init :: jsval auto_hook)))))
     = []"
proof -
  let ?w = "fst (polling_effect example_props (useAutoHistoryLoader_init :: jsval auto_hook))"
  have w: "?w = useAutoHistoryLoader_init\<lparr> timers := [(1, 3000)], next_handle := 2, pollingRef := Some 1 \<rparr>"
    by (simp add: polling_effect_def setInterval_def example_props_def useAutoHistoryLoader_init_def
        POLLING_INTERVAL_def Let_def)
  have h: "timers ?w \<noteq> []" "\<not> falsy (encodedProjectName example_props)"
      "\<not> falsy (sessionIdArg example_props)" "polls_in_flight ?w = 0"
    by (simp_all add: w) (simp_all add: example_props_def useAutoHistoryLoader_init_def polls_in_flight_def)
  have t: "tick (@) example_props ?w = ?w\<lparr> inflight := [(True, ''projs1'')] \<rparr>"
    by (simp add: w) (simp add: tick_def fetchAndConvert_start_def example_props_def
        useAutoHistoryLoader_init_def)
  have t': "timers (tick (@) example_props ?w) \<noteq> []"
    by (simp add: t h(1))
  have five: "polls_in_flight (run_events Inr (@) example_props (replicate 5 Tick) ?w) = 5"
    using every_tick_starts_a_fetch [OF h(1,2,3), of "(@)" Inr 5] h(4) by simp
  have none: "inflight (settle Inr 0 (FetchResolves example_response) (tick (@) example_props ?w)) = []"
    using every_tick_starts_a_fetch
      [OF t' h(2,3), where i = 0 and conv = Inr and outcome = "FetchResolves example_response"]
    by (simp add: t)
  from h five none show ?thesis by simp
qed

text \<open>
  The specification's wording allows at most one outstanding polling fetch. After the
  effect has installed the timer at the mount, two ticks before the first fetch settles
  leave two.
\<close>

theorem two_polls_in_flight:
  "polls_in_flight
     (run_events Inr (@) example_props [Tick, Tick]
        (fst (polling_effect example_props (useAutoHistoryLoader_init :: jsval auto_hook))))
   = 2
   \<and> \<not> polls_in_flight
       (run_events Inr (@) example_props [Tick, Tick]
          (fst (polling_effect example_props (useAutoHistoryLoader_init :: jsval auto_hook))))
     \<le> 1"
  by (simp add: tick_def fetchAndConvert_start_def polling_effect_def setInterval_def
      example_props_def useAutoHistoryLoader_init_def polls_in_flight_def Let_def)

section \<open>Entries that fail the type guard are dropped, in order\<close>

text \<open>
  C4 (as amended): once a response with a messages array has arrived, \<^verbatim>\<open>loadHistory\<close>
  hands the converter exactly the entries that satisfy the guard, in their order, and
  logs one warning for every other entry, in their order; \<^verbatim>\<open>fetchAndConvert\<close>,
  whenever it converts at all (any call that is not polling, and a polling call whose
  array is longer than the recorded count), hands the converter the same filtered list.
\<close>

theorem invalid_messages_dropped_in_order:
  "(ok r \<and> json r = Inr ch \<and> get_member ch ''messages'' = Inr (Arr ms) \<longrightarrow>
      loadHistory_resume conv (FetchResolves r) h =
       (let h1 = h\<lparr> console := console h @ map (Warn ''Skipping invalid message in history:'')
                                          (filter (\<lambda>m. \<not> isTimestampedSDKMessage m) ms) \<rparr>
        in case conv (filter isTimestampedSDKMessage ms) of
             Inl e \<Rightarrow> loadHistory_catch e h1
           | Inr cm \<Rightarrow>
               setState (\<lambda>prev. prev\<lparr> messages := cm, loading := False,
                           sessionId := get_prop ch ''sessionId'' \<rparr>) h1))
   \<and> (ok r \<and> json r = Inr ch \<and> get_member ch ''messages'' = Inr (Arr ms)
        \<and> (isPolling \<longrightarrow> lastMessageCountRef w < length ms) \<longrightarrow>
      fetchAndConvert_resume conv' isPolling (FetchResolves r) w =
       (let w1 = (if isPolling
                  then console_log (Log (''[Polling] Detected ''
                          @ show_nat (length ms - lastMessageCountRef w)
                          @ '' new message(s), updating...'')) w
                  else w)
        in case conv' (filter isTimestampedSDKMessage ms) of
             Inl e \<Rightarrow> fetchAndConvert_catch e w1
           | Inr cm \<Rightarrow>
               (setState (\<lambda>prev. prev\<lparr> messages := cm, loading := False,
                            sessionId := get_prop ch ''sessionId'' \<rparr>) w1)
                 \<lparr> lastMessageCountRef := length ms \<rparr>))"
  using loadHistory_resume_convert [of r ch ms conv h]
    fetchAndConvert_resume_convert [of r ch ms isPolling w conv']
  by blast

theorem invalid_messages_dropped_in_order_witness:
  "ok example_response \<and> json example_response = Inr example_history
   \<and> get_member example_history ''messages''
        = Inr (Arr [example_message ''t1'', Num 5, example_message ''t2''])
   \<and> lastMessageCountRef (useAutoHistoryLoader_init :: jsval auto_hook)
        < length [example_message ''t1'', Num 5, example_message ''t2'']
   \<and> loadHistory_resume Inr (FetchResolves example_response) (useHistoryLoader_init :: jsval hook)
       = \<lparr> state = \<lparr> messages = [example_message ''t1'', example_message ''t2''],
                     loading = False, error = None, sessionId = Str ''s1'' \<rparr>,
           console = [Warn ''Skipping invalid message in history:'' (Num 5)] \<rparr>
   \<and> messages (state (fetchAndConvert_resume Inr True (FetchResolves example_response)
                        (useAutoHistoryLoader_init :: jsval auto_hook)))
       = [example_message ''t1'', example_message ''t2'']"
  using invalid_messages_dropped_in_order
    [of example_response example_history "[example_message ''t1'', Num 5, example_message ''t2'']"
        Inr "useHistoryLoader_init :: jsval hook" True "useAutoHistoryLoader_init :: jsval auto_hook" Inr]
    example_response_ok example_history_messages
  by (simp add: example_guard setState_def console_log_def useHistoryLoader_init_def
      useAutoHistoryLoader_init_def example_history_def)

text \<open>
  The specification's wording also has \<^verbatim>\<open>fetchAndConvert\<close> log a warning for a
  dropped entry, on the initial load and on every polling fetch. On the sample history the entry
  \<open>5\<close> is dropped and the console receives no warning, on the initial load and on a
  polling fetch that converts; a polling fetch that finds no more entries than recorded
  logs nothing at all.
\<close>

theorem fetchAndConvert_logs_no_warning:
  "\<not> isTimestampedSDKMessage (Num 5)
   \<and> get_member example_history ''messages''
        = Inr (Arr [example_message ''t1'', Num 5, example_message ''t2''])
   \<and> messages (state (fetchAndConvert_resume Inr False (FetchResolves example_response)
                        (useAutoHistoryLoader_init :: jsval auto_hook)))
       = [example_message ''t1'', example_message ''t2'']
   \<and> console (fetchAndConvert_resume Inr False (FetchResolves example_response)
                (useAutoHistoryLoader_init :: jsval auto_hook)) = []
   \<and> console (fetchAndConvert_resume Inr True (FetchResolves example_response)
                (useAutoHistoryLoader_init :: jsval auto_hook))
       = [Log ''[Polling] Detected 3 new message(s), updating...'']
   \<and> console (fetchAndConvert_resume Inr True (FetchResolves example_response)
                (useAutoHistoryLoader_init\<lparr> lastMessageCountRef := 3 \<rparr> :: jsval auto_hook))
       = []"
proof -
  have three: "show_nat (Suc (Suc (Suc 0))) = ''3''"
    by (simp add: show_nat.simps)
  have zero: "lastMessageCountRef (useAutoHistoryLoader_init :: jsval auto_hook) = 0"
    by (simp add: useAutoHistoryLoader_init_def)
  have cons: "console (useAutoHistoryLoader_init :: jsval auto_hook) = []"
    by (simp add: useAutoHistoryLoader_init_def)
  have gated: "fetchAndConvert_resume Inr True (FetchResolves example_response)
                 (useAutoHistoryLoader_init\<lparr> lastMessageCountRef := 3 \<rparr> :: jsval auto_hook)
               = useAutoHistoryLoader_init\<lparr> lastMessageCountRef := 3 \<rparr>"
    by (simp add: fetchAndConvert_resume_polling_skip [OF example_response_ok example_history_messages])
  show ?thesis
    by (simp add: fetchAndConvert_resume_convert [OF example_response_ok example_history_messages]
        example_guard example_history_messages zero three cons gated setState_def console_log_def)
qed

section \<open>The link filter of the markdown renderer\<close>

text \<open>
  C5: \<^verbatim>\<open>isValidUrl\<close> rejects an absent and an empty href; an href that the URL
  parser resolves is accepted exactly when its protocol is http:, https: or mailto:, so
  javascript: and data: URLs are rejected; when the parser fails the href is accepted
  exactly when it starts with "/" or "#". The link component renders a rejected href as
  a span around the children and an accepted one as an anchor.
\<close>

theorem isValidUrl_protocol_filter:
  "\<not> isValidUrl P origin None
   \<and> \<not> isValidUrl P origin (Some [])
   \<and> (h \<noteq> [] \<and> P h origin = Some protocol \<longrightarrow>
        isValidUrl P origin (Some h)
          = (protocol = ''http:'' \<or> protocol = ''https:'' \<or> protocol = ''mailto:''))
   \<and> (h \<noteq> [] \<and> (P h origin = Some ''javascript:'' \<or> P h origin = Some ''data:'') \<longrightarrow>
        \<not> isValidUrl P origin (Some h))
   \<and> (h \<noteq> [] \<and> P h origin = None \<longrightarrow>
        isValidUrl P origin (Some h) = (startsWith h ''/'' \<or> startsWith h ''#''))
   \<and> (\<not> isValidUrl P origin href \<longrightarrow>
        markdown_a P origin href children = Span ''mava-text'' children)
   \<and> (isValidUrl P origin href \<longrightarrow>
        markdown_a P origin href children
          = Anchor href ''_blank'' ''noopener noreferrer'' ''mava-link hover:underline'' children)"
  by (auto simp add: isValidUrl_def markdown_a_def allowedProtocols_def)

theorem isValidUrl_protocol_filter_witness:
  "isValidUrl example_url_protocol ''http://localhost:3000'' (Some ''https://example.com/a'')
   \<and> \<not> isValidUrl example_url_protocol ''http://localhost:3000'' (Some ''javascript:alert(1)'')
   \<and> isValidUrl example_url_protocol ''http://localhost:3000'' (Some ''#top'')
   \<and> \<not> isValidUrl example_url_protocol ''http://localhost:3000'' (Some ''http://['')
   \<and> markdown_a example_url_protocol ''http://localhost:3000'' (Some ''javascript:alert(1)'') ''click''
       = Span ''mava-text'' ''click''
   \<and> markdown_a example_url_protocol ''http://localhost:3000'' (Some ''https://example.com/a'') ''click''
       = Anchor (Some ''https://example.com/a'') ''_blank'' ''noopener noreferrer''
           ''mava-link hover:underline'' ''click''"
proof -
  let ?o = "''http://localhost:3000''"
  note t = isValidUrl_protocol_filter [where P = example_url_protocol and origin = ?o
      and children = "''click''"]
  have a: "isValidUrl example_url_protocol ?o (Some ''https://example.com/a'')"
    using t [of "''https://example.com/a''" "''https:''" None]
    by (simp add: example_url_protocol_def)
  have b: "\<not> isValidUrl example_url_protocol ?o (Some ''javascript:alert(1)'')"
    using t [of "''javascript:alert(1)''" "''javascript:''" None]
    by (simp add: example_url_protocol_def)
  have c: "isValidUrl example_url_protocol ?o (Some ''#top'')"
    using t [of "''#top''" "''''" None]
    by (simp add: example_url_protocol_def startsWith_def)
  have d: "\<not> isValidUrl example_url_protocol ?o (Some ''http://['')"
    using t [of "''http://[''" "''''" None]
    by (simp add: example_url_protocol_def startsWith_def)
  have e: "markdown_a example_url_protocol ?o (Some ''javascript:alert(1)'') ''click''
       = Span ''mava-text'' ''click''"
    using t [of "''x''" "''''" "Some ''javascript:alert(1)''"] b by simp
  have f: "markdown_a example_url_protocol ?o (Some ''https://example.com/a'') ''click''
       = Anchor (Some ''https://example.com/a'') ''_blank'' ''noopener noreferrer''
           ''mava-link hover:underline'' ''click''"
    using t [of "''x''" "''''" "Some ''https://example.com/a''"] a by simp
  from a b c d e f show ?thesis by simp
qed

section \<open>The initial load surfaces its errors\<close>

text \<open>
  C6: a call of \<^verbatim>\<open>loadHistory\<close> with both identifiers non-empty. Whenever the load
  fails, the state ends with loading false and an error text, messages and sessionId as
  before: the thrown error's message (or "Failed to load conversation history" for a
  thrown value that is no Error) when the fetch rejects, when \<^verbatim>\<open>response.json()\<close>
  rejects on a body that does not parse, and when the converter throws; "Failed to load
  conversation: status statusText" when the response is not ok; and, when the parsed
  body has no messages array, "Invalid conversation history format" (unless the body is
  null or undefined, where it is the TypeError's text). When the body has a messages
  array and the conversion succeeds, the state ends with the converted messages, the
  body's sessionId, loading false and error null.
\<close>

theorem loadHistory_surfaces_errors:
  assumes "epn \<noteq> []" "sid \<noteq> []"
  shows "(net (url epn sid) = FetchRejects e \<longrightarrow>
            state (loadHistory conv url net epn sid h) =
              (state h)\<lparr> loading := False,
                error := Some (case e of ErrorObj message \<Rightarrow> message
                               | NonError \<Rightarrow> ''Failed to load conversation history'') \<rparr>)
       \<and> (net (url epn sid) = FetchResolves r \<and> \<not> ok r \<longrightarrow>
            state (loadHistory conv url net epn sid h) =
              (state h)\<lparr> loading := False,
                error := Some (''Failed to load conversation: '' @ show_nat (status r)
                                 @ '' '' @ statusText r) \<rparr>)
       \<and> (net (url epn sid) = FetchResolves r \<and> ok r \<and> json r = Inl e \<longrightarrow>
            state (loadHistory conv url net epn sid h) =
              (state h)\<lparr> loading := False,
                error := Some (case e of ErrorObj message \<Rightarrow> message
                               | NonError \<Rightarrow> ''Failed to load conversation history'') \<rparr>)
       \<and> (net (url epn sid) = FetchResolves r \<and> ok r \<and> json r = Inr ch
            \<and> \<not> (\<exists>ms. get_member ch ''messages'' = Inr (Arr ms)) \<longrightarrow>
            (\<exists>text. state (loadHistory conv url net epn sid h) =
                       (state h)\<lparr> loading := False, error := Some text \<rparr>
                  \<and> (ch \<noteq> Null \<and> ch \<noteq> Undefined \<longrightarrow> text = ''Invalid conversation history format'')))
       \<and> (net (url epn sid) = FetchResolves r \<and> ok r \<and> json r = Inr ch
            \<and> get_member ch ''messages'' = Inr (Arr ms)
            \<and> conv (filter isTimestampedSDKMessage ms) = Inl e \<longrightarrow>
            state (loadHistory conv url net epn sid h) =
              (state h)\<lparr> loading := False,
                error := Some (case e of ErrorObj message \<Rightarrow> message
                               | NonError \<Rightarrow> ''Failed to load conversation history'') \<rparr>)
       \<and> (net (url epn sid) = FetchResolves r \<and> ok r \<and> json r = Inr ch
            \<and> get_member ch ''messages'' = Inr (Arr ms)
            \<and> conv (filter isTimestampedSDKMessage ms) = Inr cm \<longrightarrow>
            state (loadHistory conv url net epn sid h) =
              (state h)\<lparr> messages := cm, loading := False, error := None,
                         sessionId := get_prop ch ''sessionId'' \<rparr>)"
proof -
  let ?h1 = "setState (\<lambda>prev. prev\<lparr> loading := True, error := None \<rparr>) h"
  let ?caught = "\<lambda>e. (state h)\<lparr> loading := False,
                error := Some (case e of ErrorObj message \<Rightarrow> message
                               | NonError \<Rightarrow> ''Failed to load conversation history'') \<rparr>"
  have run: "loadHistory conv url net epn sid h = loadHistory_resume conv (net (url epn sid)) ?h1"
    using assms by (simp add: loadHistory_def loadHistory_start_def)
  have st: "state ?h1 = (state h)\<lparr> loading := True, error := None \<rparr>"
    by (simp add: setState_def)
  have R: "state (loadHistory conv url net epn sid h) = ?caught e"
    if "net (url epn sid) = FetchRejects e"
    using that by (simp add: run loadHistory_resume_def state_loadHistory_catch st)
  have A: "state (loadHistory conv url net epn sid h) =
              (state h)\<lparr> loading := False,
                error := Some (''Failed to load conversation: '' @ show_nat (status r)
                                 @ '' '' @ statusText r) \<rparr>"
    if "net (url epn sid) = FetchResolves r" "\<not> ok r"
    using that by (simp add: run loadHistory_resume_def state_loadHistory_catch st)
  have J: "state (loadHistory conv url net epn sid h) = ?caught e"
    if "net (url epn sid) = FetchResolves r" "ok r" "json r = Inl e"
    using that by (simp add: run loadHistory_resume_def state_loadHistory_catch st)
  have B: "\<exists>text. state (loadHistory conv url net epn sid h) =
                       (state h)\<lparr> loading := False, error := Some text \<rparr>
                  \<and> (ch \<noteq> Null \<and> ch \<noteq> Undefined \<longrightarrow> text = ''Invalid conversation history format'')"
    if n: "net (url epn sid) = FetchResolves r"
      and that: "ok r" "json r = Inr ch" "\<not> (\<exists>ms. get_member ch ''messages'' = Inr (Arr ms))"
  proof -
    from loadHistory_resume_no_array [OF that, of conv ?h1]
    obtain e where e: "loadHistory_resume conv (FetchResolves r) ?h1 = loadHistory_catch e ?h1"
      and f: "ch \<noteq> Null \<longrightarrow> ch \<noteq> Undefined \<longrightarrow> e = ErrorObj ''Invalid conversation history format''"
      by blast
    show ?thesis
      using f by (cases e) (auto simp add: run n e state_loadHistory_catch st)
  qed
  have T: "state (loadHistory conv url net epn sid h) = ?caught e"
    if n: "net (url epn sid) = FetchResolves r"
      and that: "ok r" "json r = Inr ch" "get_member ch ''messages'' = Inr (Arr ms)"
      and c: "conv (filter isTimestampedSDKMessage ms) = Inl e"
    using c
    by (simp add: run n loadHistory_resume_convert [OF that] state_loadHistory_catch st)
  have C: "state (loadHistory conv url net epn sid h) =
              (state h)\<lparr> messages := cm, loading := False, error := None,
                         sessionId := get_prop ch ''sessionId'' \<rparr>"
    if n: "net (url epn sid) = FetchResolves r"
      and that: "ok r" "json r = Inr ch" "get_member ch ''messages'' = Inr (Arr ms)"
      and c: "conv (filter isTimestampedSDKMessage ms) = Inr cm"
    using c
    by (simp add: run n loadHistory_resume_convert [OF that] setState_def)
  from R A J B T C show ?thesis by blast
qed

theorem loadHistory_surfaces_errors_witness:
  "state (loadHistory Inr (@) (\<lambda>u. FetchRejects (ErrorObj ''Failed to fetch''))
            ''proj'' ''s1'' (useHistoryLoader_init :: jsval hook))
     = \<lparr> messages = [], loading = False, error = Some ''Failed to fetch'', sessionId = Null \<rparr>
   \<and> state (loadHistory Inr (@)
            (\<lambda>u. FetchResolves \<lparr> ok = False, status = 404, statusText = ''Not Found'',
                                   json = Inl NonError \<rparr>)
            ''proj'' ''s1'' (useHistoryLoader_init :: jsval hook))
     = \<lparr> messages = [], loading = False,
         error = Some ''Failed to load conversation: 404 Not Found'', sessionId = Null \<rparr>
   \<and> state (loadHistory Inr (@)
            (\<lambda>u. FetchResolves \<lparr> ok = True, status = 200, statusText = ''OK'',
                                   json = Inl (ErrorObj ''Unexpected end of JSON input'') \<rparr>)
            ''proj'' ''s1'' (useHistoryLoader_init :: jsval hook))
     = \<lparr> messages = [], loading = False,
         error = Some ''Unexpected end of JSON input'', sessionId = Null \<rparr>
   \<and> state (loadHistory Inr (@)
            (\<lambda>u. FetchResolves \<lparr> ok = True, status = 200, statusText = ''OK'',
                                   json = Inr (Obj [(''sessionId'', Str ''s1'')]) \<rparr>)
            ''proj'' ''s1'' (useHistoryLoader_init :: jsval hook))
     = \<lparr> messages = [], loading = False,
         error = Some ''Invalid conversation history format'', sessionId = Null \<rparr>
   \<and> state (loadHistory (\<lambda>ts. Inl NonError) (@) (\<lambda>u. FetchResolves example_response)
            ''proj'' ''s1'' (useHistoryLoader_init :: jsval hook))
     = \<lparr> messages = [], loading = False,
         error = Some ''Failed to load conversation history'', sessionId = Null \<rparr>
   \<and> state (loadHistory Inr (@) (\<lambda>u. FetchResolves example_response)
            ''proj'' ''s1'' (useHistoryLoader_init :: jsval hook))
     = \<lparr> messages = [example_message ''t1'', example_message ''t2''], loading = False,
         error = None, sessionId = Str ''s1'' \<rparr>"
proof -
  let ?h = "useHistoryLoader_init :: jsval hook"
  let ?r1 = "\<lparr> ok = False, status = 404, statusText = ''Not Found'', json = Inl NonError \<rparr>"
  let ?r3 = "\<lparr> ok = True, status = 200, statusText = ''OK'',
               json = Inl (ErrorObj ''Unexpected end of JSON input'') \<rparr>"
  let ?b2 = "Obj [(''sessionId'', Str ''s1'')]"
  let ?r2 = "\<lparr> ok = True, status = 200, statusText = ''OK'', json = Inr ?b2 \<rparr>"
  let ?ms = "[example_message ''t1'', Num 5, example_message ''t2'']"
  have ids: "''proj'' \<noteq> []" "''s1'' \<noteq> []" by simp_all
  note t = loadHistory_surfaces_errors [OF ids, where url = "(@)" and h = ?h]
  have n: "show_nat 404 = ''404''" by (simp add: show_nat.simps)
  have st: "state ?h = \<lparr> messages = [], loading = False, error = None, sessionId = Null \<rparr>"
    by (simp add: useHistoryLoader_init_def)
  have z: "state (loadHistory Inr (@) (\<lambda>u. FetchRejects (ErrorObj ''Failed to fetch''))
                    ''proj'' ''s1'' ?h)
     = \<lparr> messages = [], loading = False, error = Some ''Failed to fetch'', sessionId = Null \<rparr>"
    using t [where net = "\<lambda>u. FetchRejects (ErrorObj ''Failed to fetch'')" and conv = Inr
        and e = "ErrorObj ''Failed to fetch''"]
    by (simp add: st)
  have a: "state (loadHistory Inr (@) (\<lambda>u. FetchResolves ?r1) ''proj'' ''s1'' ?h)
     = \<lparr> messages = [], loading = False,
         error = Some ''Failed to load conversation: 404 Not Found'', sessionId = Null \<rparr>"
    using t [where net = "\<lambda>u. FetchResolves ?r1" and conv = Inr and r = ?r1]
    by (simp add: n st)
  have j: "state (loadHistory Inr (@) (\<lambda>u. FetchResolves ?r3) ''proj'' ''s1'' ?h)
     = \<lparr> messages = [], loading = False,
         error = Some ''Unexpected end of JSON input'', sessionId = Null \<rparr>"
    using t [where net = "\<lambda>u. FetchResolves ?r3" and conv = Inr and r = ?r3
        and e = "ErrorObj ''Unexpected end of JSON input''"]
    by (simp add: st)
  have b: "state (loadHistory Inr (@) (\<lambda>u. FetchResolves ?r2) ''proj'' ''s1'' ?h)
     = \<lparr> messages = [], loading = False,
         error = Some ''Invalid conversation history format'', sessionId = Null \<rparr>"
    using t [where net = "\<lambda>u. FetchResolves ?r2" and conv = Inr and r = ?r2 and ch = ?b2]
    by (auto simp add: st)
  have th: "state (loadHistory (\<lambda>ts. Inl NonError) (@) (\<lambda>u. FetchResolves example_response)
                     ''proj'' ''s1'' ?h)
     = \<lparr> messages = [], loading = False,
         error = Some ''Failed to load conversation history'', sessionId = Null \<rparr>"
    using t [where net = "\<lambda>u. FetchResolves example_response" and conv = "\<lambda>ts. Inl NonError"
        and r = example_response and ch = example_history and ms = ?ms and e = NonError]
      example_response_ok example_history_messages
    by (simp add: st)
  have c: "state (loadHistory Inr (@) (\<lambda>u. FetchResolves example_response) ''proj'' ''s1'' ?h)
     = \<lparr> messages = [example_message ''t1'', example_message ''t2''], loading = False,
         error = None, sessionId = Str ''s1'' \<rparr>"
    using t [where net = "\<lambda>u. FetchResolves example_response" and conv = Inr
        and r = example_response and ch = example_history and ms = ?ms
        and cm = "[example_message ''t1'', example_message ''t2'']"]
      example_response_ok example_history_messages
    by (simp add: example_guard st) (simp add: example_history_def)
  from z a j b th c show ?thesis by simp
qed

section \<open>renderMessage dispatches on the first satisfied guard\<close>

text \<open>
  C7: \<^verbatim>\<open>renderMessage\<close> returns the component of the first guard the message
  satisfies in the order system, tool, tool-result, plan, thinking, todo, chat, keyed by
  the message's timestamp and the index and carrying the message, and it returns null
  exactly when the message satisfies none of the seven guards. The result is a function
  of the message and the index (the guards and the timestamp text being fixed).
\<close>

theorem renderMessage_first_guard:
  "renderMessage G ts m i =
     map_option (\<lambda>c. Element c (ts m @ ''-'' @ show_nat i) m) (first_satisfied G m)
   \<and> (renderMessage G ts m i = None) =
       (\<not> isSystemMessage G m \<and> \<not> isToolMessage G m \<and> \<not> isToolResultMessage G m
        \<and> \<not> isPlanMessage G m \<and> \<not> isThinkingMessage G m \<and> \<not> isTodoMessage G m
        \<and> \<not> isChatMessage G m)"
  by (simp add: renderMessage_def first_satisfied_def guard_order_def Let_def)

section \<open>The polling timer\<close>

text \<open>
  C8: \<^verbatim>\<open>POLLING_INTERVAL\<close> is 3000. From the mount on, after any sequence of runs
  of the polling effect: if the latest arguments enable polling and give both
  identifiers, the hook has exactly one interval timer, of period 3000 ms and held in
  \<^verbatim>\<open>pollingRef\<close>, and a tick of it issues the polling fetch of the conversation URL
  of these identifiers; otherwise it has no timer and \<^verbatim>\<open>pollingRef\<close> is empty, so
  nothing ticks and no fetch is issued. After the unmount it has no timer and nothing
  ticks.
\<close>

theorem polling_timer_single_3000:
  assumes "timers w0 = []" and "pollingRef w0 = None"
  shows "POLLING_INTERVAL = 3000
       \<and> (case run_polling_effects (ps @ [p]) (w0, False) of
            (w, cleanup) \<Rightarrow>
              (if enablePolling p \<and> \<not> falsy (encodedProjectName p) \<and> \<not> falsy (sessionIdArg p)
               then \<exists>handle name sid.
                      timers w = [(handle, 3000)] \<and> pollingRef w = Some handle
                      \<and> encodedProjectName p = Some name \<and> sessionIdArg p = Some sid
                      \<and> tick url p w = w\<lparr> inflight := inflight w @ [(True, url name sid)] \<rparr>
               else timers w = [] \<and> pollingRef w = None \<and> tick url q w = w)
              \<and> timers (unmount (w, cleanup)) = []
              \<and> tick url q (unmount (w, cleanup)) = unmount (w, cleanup))"
proof -
  have inv0: "timers w0 = (case pollingRef w0 of None \<Rightarrow> [] | Some handle \<Rightarrow> [(handle, POLLING_INTERVAL)])"
    using assms by simp
  obtain w1 c1 where r1: "run_polling_effects ps (w0, False) = (w1, c1)"
    by (cases "run_polling_effects ps (w0, False)")
  let ?w = "if c1 then polling_cleanup w1 else w1"
  have inv1: "timers w1 = (case pollingRef w1 of None \<Rightarrow> [] | Some handle \<Rightarrow> [(handle, POLLING_INTERVAL)])"
    using run_polling_effects_inv [OF inv0, of ps False] r1 by simp
  have inv: "timers ?w = (case pollingRef ?w of None \<Rightarrow> [] | Some handle \<Rightarrow> [(handle, POLLING_INTERVAL)])"
    using inv1 polling_cleanup_inv [OF inv1] by simp
  have last: "run_polling_effects (ps @ [p]) (w0, False) = polling_effect p ?w"
    by (simp add: run_polling_effects_snoc r1)
  obtain w c where eff: "polling_effect p ?w = (w, c)"
    by (cases "polling_effect p ?w")
  have gone: "timers (unmount (w, c)) = []"
    using eff unfolding polling_effect_installs [OF inv]
    by (auto simp add: unmount_def polling_cleanup_def clearInterval_def POLLING_INTERVAL_def
        split: if_splits)
  have quiet: "tick url q (unmount (w, c)) = unmount (w, c)"
    by (rule tick_without_timer [OF gone])
  show ?thesis
  proof (cases "enablePolling p \<and> \<not> falsy (encodedProjectName p) \<and> \<not> falsy (sessionIdArg p)")
    case True
    then obtain name sid where ids: "encodedProjectName p = Some name" "name \<noteq> []"
        "sessionIdArg p = Some sid" "sid \<noteq> []"
      by (auto simp add: falsy_iff)
    from True eff have w: "timers w = [(next_handle ?w, 3000)]" "pollingRef w = Some (next_handle ?w)"
      unfolding polling_effect_installs [OF inv] by (auto simp add: POLLING_INTERVAL_def)
    then have "timers w \<noteq> []" by simp
    from tick_issues_poll [OF this ids(1,3,2,4), of url]
    have "tick url p w = w\<lparr> inflight := inflight w @ [(True, url name sid)] \<rparr>" .
    with True w ids gone quiet show ?thesis
      by (simp add: last eff POLLING_INTERVAL_def)
  next
    case False
    with eff have w: "timers w = []" "pollingRef w = None"
      unfolding polling_effect_installs [OF inv] by auto
    from tick_without_timer [OF w(1), of url q] False w gone quiet show ?thesis
      by (simp add: last eff POLLING_INTERVAL_def)
  qed
qed

theorem polling_timer_single_3000_witness:
  "timers (useAutoHistoryLoader_init :: jsval auto_hook) = []
   \<and> pollingRef (useAutoHistoryLoader_init :: jsval auto_hook) = None
   \<and> timers (fst (run_polling_effects
         [example_props, example_props\<lparr> enablePolling := False \<rparr>, example_props]
         (useAutoHistoryLoader_init :: jsval auto_hook, False))) = [(2, 3000)]
   \<and> inflight (tick (@) example_props (fst (run_polling_effects
         [example_props, example_props\<lparr> enablePolling := False \<rparr>, example_props]
         (useAutoHistoryLoader_init :: jsval auto_hook, False)))) = [(True, ''projs1'')]
   \<and> timers (fst (run_polling_effects
         [example_props, example_props\<lparr> sessionIdArg := None \<rparr>]
         (useAutoHistoryLoader_init :: jsval auto_hook, False))) = []
   \<and> inflight (tick (@) example_props (fst (run_polling_effects
         [example_props, example_props\<lparr> sessionIdArg := None \<rparr>]
         (useAutoHistoryLoader_init :: jsval auto_hook, False)))) = []
   \<and> timers (unmount (run_polling_effects [example_props]
         (useAutoHistoryLoader_init :: jsval auto_hook, False))) = []
   \<and> inflight (tick (@) example_props (unmount (run_polling_effects [example_props]
         (useAutoHistoryLoader_init :: jsval auto_hook, False)))) = []"
proof -
  let ?w0 = "useAutoHistoryLoader_init :: jsval auto_hook"
  let ?off = "example_props\<lparr> enablePolling := False \<rparr>"
  let ?noid = "example_props\<lparr> sessionIdArg := None \<rparr>"
  have h: "timers ?w0 = []" "pollingRef ?w0 = None"
    by (simp_all add: useAutoHistoryLoader_init_def)
  have ra: "run_polling_effects [example_props, ?off, example_props] (?w0, False)
           = (?w0\<lparr> timers := [(2, 3000)], next_handle := 3, pollingRef := Some 2 \<rparr>, True)"
    by (simp add: polling_effect_def polling_cleanup_def setInterval_def clearInterval_def
        example_props_def useAutoHistoryLoader_init_def POLLING_INTERVAL_def Let_def)
  have rb: "run_polling_effects [example_props, ?noid] (?w0, False)
           = (?w0\<lparr> timers := [], next_handle := 2, pollingRef := None \<rparr>, False)"
    by (simp add: polling_effect_def polling_cleanup_def setInterval_def clearInterval_def
        example_props_def useAutoHistoryLoader_init_def POLLING_INTERVAL_def Let_def)
  have rc: "run_polling_effects [example_props] (?w0, False)
           = (?w0\<lparr> timers := [(1, 3000)], next_handle := 2, pollingRef := Some 1 \<rparr>, True)"
    by (simp add: polling_effect_def polling_cleanup_def setInterval_def clearInterval_def
        example_props_def useAutoHistoryLoader_init_def POLLING_INTERVAL_def Let_def)
  have i0: "inflight ?w0 = []"
    by (simp add: useAutoHistoryLoader_init_def)
  have ex: "enablePolling example_props" "encodedProjectName example_props = Some ''proj''"
      "sessionIdArg example_props = Some ''s1''"
    by (simp_all add: example_props_def)
  note a0 = polling_timer_single_3000 [OF h, where ps = "[example_props, ?off]"
        and p = example_props and url = "(@)" and q = example_props, unfolded append.simps ra]
  note b0 = polling_timer_single_3000 [OF h, where ps = "[example_props]"
        and p = ?noid and url = "(@)" and q = example_props, unfolded append.simps rb]
  note c0 = polling_timer_single_3000 [OF h, where ps = "[]"
        and p = example_props and url = "(@)" and q = example_props, unfolded append.simps rc]
  have a: "timers (fst (run_polling_effects [example_props, ?off, example_props] (?w0, False)))
             = [(2, 3000)]
         \<and> inflight (tick (@) example_props
              (fst (run_polling_effects [example_props, ?off, example_props] (?w0, False))))
             = [(True, ''projs1'')]"
    unfolding ra fst_conv using a0 [THEN conjunct2] by (auto simp add: ex i0)
  have b: "timers (fst (run_polling_effects [example_props, ?noid] (?w0, False))) = []
         \<and> inflight (tick (@) example_props
              (fst (run_polling_effects [example_props, ?noid] (?w0, False)))) = []"
    unfolding rb fst_conv using b0 [THEN conjunct2] by (auto simp add: i0)
  have c: "timers (unmount (run_polling_effects [example_props] (?w0, False))) = []
         \<and> inflight (tick (@) example_props
              (unmount (run_polling_effects [example_props] (?w0, False)))) = []"
    unfolding rc using c0 [THEN conjunct2]
    by (auto simp add: i0 unmount_def polling_cleanup_def clearInterval_def)
  from h a b c show ?thesis by simp
qed

section \<open>loadHistory without an identifier\<close>

text \<open>
  C9: when the encoded project name or the session id is the empty string,
  \<^verbatim>\<open>loadHistory\<close> issues no fetch and changes nothing but the error, which becomes
  "Encoded project name and session ID are required": messages, sessionId and loading
  stay as they were.
\<close>

theorem loadHistory_requires_ids:
  assumes "epn = [] \<or> sid = []"
  shows "snd (loadHistory_start url epn sid h) = None
       \<and> loadHistory conv url net epn sid h =
           h\<lparr> state := (state h)\<lparr> error := Some ''Encoded project name and session ID are required'' \<rparr> \<rparr>
       \<and> messages (state (loadHistory conv url net epn sid h)) = messages (state h)
       \<and> sessionId (state (loadHistory conv url net epn sid h)) = sessionId (state h)
       \<and> loading (state (loadHistory conv url net epn sid h)) = loading (state h)
       \<and> error (state (loadHistory conv url net epn sid h))
           = Some ''Encoded project name and session ID are required''"
  using assms by (auto simp: loadHistory_def loadHistory_start_def setState_def)

theorem loadHistory_requires_ids_witness:
  "snd (loadHistory_start (@) '''' ''s1'' (useHistoryLoader_init :: jsval hook)) = None
   \<and> loadHistory Inr (@) (\<lambda>u. FetchResolves example_response) '''' ''s1''
        (useHistoryLoader_init :: jsval hook)
      = \<lparr> state = \<lparr> messages = [], loading = False,
                    error = Some ''Encoded project name and session ID are required'',
                    sessionId = Null \<rparr>,
          console = [] \<rparr>
   \<and> error (state (loadHistory Inr (@) (\<lambda>u. FetchResolves example_response) ''proj'' ''''
        (useHistoryLoader_init :: jsval hook)))
      = Some ''Encoded project name and session ID are required''"
  using loadHistory_requires_ids
      [of "''''" "''s1''" "(@)" "useHistoryLoader_init :: jsval hook" Inr
          "\<lambda>u. FetchResolves example_response"]
    loadHistory_requires_ids
      [of "''proj''" "''''" "(@)" "useHistoryLoader_init :: jsval hook" Inr
          "\<lambda>u. FetchResolves example_response"]
  by (simp add: useHistoryLoader_init_def)

section \<open>clearHistory\<close>

text \<open>
  C10: \<^verbatim>\<open>clearHistory\<close> puts the state back to its initial value whatever it was, in
  both hooks; in the auto-loading hook it also sets the recorded message count to 0; and
  clearing twice is the same as clearing once.
\<close>

theorem clearHistory_resets:
  "state (clearHistory h) = \<lparr> messages = [], loading = False, error = None, sessionId = Null \<rparr>
   \<and> state (clearHistory h) = state useHistoryLoader_init
   \<and> console (clearHistory h) = console h
   \<and> clearHistory (clearHistory h) = clearHistory h
   \<and> state (auto_clearHistory w) = \<lparr> messages = [], loading = False, error = None, sessionId = Null \<rparr>
   \<and> state (auto_clearHistory w) = state useAutoHistoryLoader_init
   \<and> lastMessageCountRef (auto_clearHistory w) = 0
   \<and> auto_clearHistory (auto_clearHistory w) = auto_clearHistory w"
  by (simp add: clearHistory_def auto_clearHistory_def useHistoryLoader_init_def
      useAutoHistoryLoader_init_def)

end
